theory Spec2Isabelle
  imports Main
begin

section \<open>Environment detection and configuration\<close>

text \<open>
  The interface \<open>EnvironmentInfo\<close> and the interface \<open>SolverConfig\<close> of the
  library, field by field. The nested object \<open>resourceLimits\<close> is a record of its own.
\<close>

record EnvironmentInfo =
  isDevelopment :: bool
  isProduction :: bool
  isServerless :: bool
  platform :: string
  puppeteerAvailable :: bool
  chromeAvailable :: bool

record ResourceLimits =
  maxMemory :: nat
  maxCpuUsage :: nat

record SolverConfig =
  timeout :: nat
  maxRetries :: nat
  enablePuppeteer :: bool
  enableHttpFallback :: bool
  enableAntiDetection :: bool
  resourceLimits :: ResourceLimits

text \<open>
  What \<open>detectEnvironment\<close> reads from outside the class: the variables of
  \<open>process.env\<close> (absent is \<open>None\<close>), whether \<open>require('puppeteer')\<close>
  succeeds, and \<open>fs.existsSync\<close>.
\<close>

record host =
  NODE_ENV :: "string option"
  VERCEL :: "string option"
  NETLIFY :: "string option"
  AWS_LAMBDA_FUNCTION_NAME :: "string option"
  FUNCTION_NAME :: "string option"
  CF_PAGES :: "string option"
  CHROME_PATH :: "string option"
  PUPPETEER_EXECUTABLE_PATH :: "string option"
  requirePuppeteer :: bool
  existsSync :: "string \<Rightarrow> bool"

text \<open>The two private static caches of the class.\<close>

record solver_state =
  environmentInfo :: "EnvironmentInfo option"
  solverConfig :: "SolverConfig option"

definition initial_state :: solver_state where
  "initial_state = \<lparr> environmentInfo = None, solverConfig = None \<rparr>"

text \<open>JavaScript truthiness of a possibly absent string, and \<open>a || b\<close> on such values.\<close>

definition truthy :: "string option \<Rightarrow> bool" where
  "truthy v = (case v of None \<Rightarrow> False | Some s \<Rightarrow> s \<noteq> [])"

definition js_or :: "string option \<Rightarrow> string option \<Rightarrow> string option" where
  "js_or a b = (if truthy a then a else b)"

definition detectEnvironment :: "host \<Rightarrow> solver_state \<Rightarrow> EnvironmentInfo \<times> solver_state" where
  "detectEnvironment h s =
     (case environmentInfo s of
        Some cached \<Rightarrow> (cached, s)
      | None \<Rightarrow>
          (let isDev = (NODE_ENV h = Some ''development'');
               isProd = (NODE_ENV h = Some ''production'');
               isSrvless = (truthy (VERCEL h) \<or> truthy (NETLIFY h)
                            \<or> truthy (AWS_LAMBDA_FUNCTION_NAME h)
                            \<or> truthy (FUNCTION_NAME h) \<or> truthy (CF_PAGES h));
               plat = (if truthy (VERCEL h) then ''vercel''
                       else if truthy (NETLIFY h) then ''netlify''
                       else if truthy (AWS_LAMBDA_FUNCTION_NAME h) then ''aws-lambda''
                       else if truthy (CF_PAGES h) then ''cloudflare''
                       else if isDev then ''development''
                       else ''server'');
               chromePath = js_or (js_or (CHROME_PATH h) (PUPPETEER_EXECUTABLE_PATH h))
                              (if plat = ''vercel'' then Some ''/usr/bin/chromium-browser'' else None);
               chrome = (if requirePuppeteer h
                         then (if truthy chromePath then existsSync h (the chromePath)
                               else \<not> isSrvless)
                         else False);
               info = \<lparr> isDevelopment = isDev, isProduction = isProd,
                        isServerless = isSrvless, platform = plat,
                        puppeteerAvailable = requirePuppeteer h, chromeAvailable = chrome \<rparr>
           in (info, s\<lparr> environmentInfo := Some info \<rparr>)))"

definition getConfig :: "host \<Rightarrow> solver_state \<Rightarrow> SolverConfig \<times> solver_state" where
  "getConfig h s =
     (case solverConfig s of
        Some cached \<Rightarrow> (cached, s)
      | None \<Rightarrow>
          (let (env, s1) = detectEnvironment h s;
               cfg = \<lparr> timeout = (if isProduction env then 20000 else 30000),
                       maxRetries = (if isProduction env then 2 else 3),
                       enablePuppeteer = (puppeteerAvailable env \<and> chromeAvailable env
                                          \<and> \<not> isServerless env),
                       enableHttpFallback = True,
                       enableAntiDetection = isProduction env,
                       resourceLimits = \<lparr> maxMemory = (if isServerless env then 512 else 1024),
                                          maxCpuUsage = (if isServerless env then 80 else 90) \<rparr> \<rparr>
           in (cfg, s1\<lparr> solverConfig := Some cfg \<rparr>)))"

text \<open>
  The states the class can be in: both caches start as \<open>null\<close>, and only
  \<open>detectEnvironment\<close> and \<open>getConfig\<close> assign them.
\<close>

inductive reachable :: "solver_state \<Rightarrow> bool" where
  reach_init: "reachable initial_state"
| reach_detect: "reachable s \<Longrightarrow> reachable (snd (detectEnvironment h s))"
| reach_config: "reachable s \<Longrightarrow> reachable (snd (getConfig h s))"

text \<open>
  The strategy list of \<open>solveCaptcha\<close>, as the names of the methods its closures call.
\<close>

datatype strategy_id = Puppeteer | Http | ApiSimulation

definition strategies :: "SolverConfig \<Rightarrow> strategy_id list" where
  "strategies config =
     (if enablePuppeteer config then [Puppeteer] else [])
     @ (if enableHttpFallback config then [Http, ApiSimulation] else [])"

text \<open>The invariant of the configuration cache.\<close>

definition http_enabled :: "solver_state \<Rightarrow> bool" where
  "http_enabled s = (case solverConfig s of None \<Rightarrow> True | Some c \<Rightarrow> enableHttpFallback c)"

section \<open>Strings and numbers\<close>

text \<open>
  Markup and puzzle data are strings of 8-bit characters: the model covers the
  JavaScript strings whose code units are below 256, where \<open>charCodeAt\<close> is
  \<open>of_char\<close> and \<open>toLowerCase\<close> maps one character to one character.
\<close>

definition toLowerCase_char :: "char \<Rightarrow> char" where
  "toLowerCase_char c =
     (let n = (of_char c :: int)
      in if (65 \<le> n \<and> n \<le> 90) \<or> (192 \<le> n \<and> n \<le> 222 \<and> n \<noteq> 215)
         then char_of (n + 32) else c)"

definition toLowerCase :: "string \<Rightarrow> string" where
  "toLowerCase s = map toLowerCase_char s"

fun startsWith :: "string \<Rightarrow> string \<Rightarrow> bool" where
  "startsWith s [] = True"
| "startsWith [] (p # ps) = False"
| "startsWith (c # cs) (p # ps) = (c = p \<and> startsWith cs ps)"

fun includes_str :: "string \<Rightarrow> string \<Rightarrow> bool" where
  "includes_str [] sub = (sub = [])"
| "includes_str (c # cs) sub = (startsWith (c # cs) sub \<or> includes_str cs sub)"

text \<open>
  \<open>Number.prototype.toString(radix)\<close> on a non-negative integer: no sign, no
  leading zero, lower-case letters for the digits from ten on.
\<close>

definition digit_char :: "nat \<Rightarrow> char" where
  "digit_char d = ''0123456789abcdefghijklmnopqrstuvwxyz'' ! d"

function toStringRadix :: "nat \<Rightarrow> nat \<Rightarrow> string" where
  "toStringRadix radix n =
     (if radix < 2 \<or> n < radix then [digit_char n]
      else toStringRadix radix (n div radix) @ [digit_char (n mod radix)])"
  by pat_completeness auto
termination
  by (relation "measure (\<lambda>(radix, n). n)") auto

text \<open>
  \<open>toString\<close> covers the integers below \<open>10^21\<close> in absolute value, which
  JavaScript writes in full; from there on it writes an exponent. The numbers this
  model prints are clock values, status codes, the timeout and nonces.
\<close>

definition toString :: "int \<Rightarrow> string" where
  "toString n = (if n < 0 then ''-'' @ toStringRadix 10 (nat (- n)) else toStringRadix 10 (nat n))"

section \<open>The proof-of-work simulation of the HTTP fallback\<close>

text \<open>
  \<open>ToInt32\<close>, which the operators \<open><<\<close> and \<open>&\<close> apply to their operands and
  to their result: the integer is taken modulo \<open>2^32\<close> into the signed 32-bit range.
\<close>

definition toInt32 :: "int \<Rightarrow> int" where
  "toInt32 x = (x + 2147483648) mod 4294967296 - 2147483648"

text \<open>
  \<open>simpleHash\<close>. The subtraction and the addition are exact (the operands are far
  below \<open>2^53\<close>), and \<open>hash & hash\<close> converts the sum to a 32-bit integer.
\<close>

fun simpleHash_loop :: "int \<Rightarrow> string \<Rightarrow> int" where
  "simpleHash_loop hash [] = hash"
| "simpleHash_loop hash (c # cs) =
     simpleHash_loop (toInt32 ((toInt32 (hash * 32) - hash) + of_char c)) cs"

definition simpleHash :: "string \<Rightarrow> string" where
  "simpleHash str = toStringRadix 16 (nat \<bar>simpleHash_loop 0 str\<bar>)"

text \<open>
  The loop of \<open>simulateProofOfWork\<close>. Beside the hash it returns, if any, the model
  counts the hashes it has computed, which is the number of loop bodies run.
\<close>

function simulateProofOfWork_loop ::
  "string \<Rightarrow> string \<Rightarrow> nat \<Rightarrow> nat \<Rightarrow> nat \<Rightarrow> string option \<times> nat" where
  "simulateProofOfWork_loop data target i nonce hashed =
     (if i < 10000
      then (let hash = simpleHash (data @ toString (int nonce))
            in if startsWith hash target then (Some hash, Suc hashed)
               else simulateProofOfWork_loop data target (i + 1) (nonce + 1) (Suc hashed))
      else (None, hashed))"
  by pat_completeness auto
termination
  by (relation "measure (\<lambda>(data, target, i, nonce, hashed). 10000 - i)") auto

text \<open>What the code throws where the model follows it.\<close>

datatype js_error = RangeError

text \<open>
  \<open>String.prototype.repeat\<close>. It throws a \<open>RangeError\<close> for a negative count, and
  when the result would be longer than the longest string the engine builds. This
  length is not part of the repository and is a parameter here (V8 has
  \<open>2^29 - 24\<close>).
\<close>

definition repeat_str :: "nat \<Rightarrow> string \<Rightarrow> int \<Rightarrow> js_error + string" where
  "repeat_str maxStringLength s count =
     (if count < 0 \<or> int maxStringLength < int (length s) * count then Inl RangeError
      else Inr (concat (replicate (nat count) s)))"

text \<open>
  \<open>simulateProofOfWork\<close>. \<open>difficulty\<close> is an integer, so
  \<open>Math.floor(difficulty / 1000)\<close> is \<open>div\<close>, which rounds down as \<open>floor\<close>
  does (the division is exact enough for this wherever the count is within the limit
  of an engine). A number with a fraction is outside the model. \<open>now\<close> is the
  value \<open>Date.now()\<close> returns after the loop.
\<close>

definition simulateProofOfWork :: "nat \<Rightarrow> string \<Rightarrow> int \<Rightarrow> int \<Rightarrow> js_error + string" where
  "simulateProofOfWork maxStringLength data difficulty now =
     (case repeat_str maxStringLength ''0'' (difficulty div 1000) of
        Inl err \<Rightarrow> Inl err
      | Inr target \<Rightarrow>
          (case fst (simulateProofOfWork_loop data target 0 0 0) of
             Some hash \<Rightarrow> Inr hash
           | None \<Rightarrow> Inr (simpleHash (data @ toString now))))"

text \<open>
  The parsed puzzle response, as far as \<open>solvePuzzleHttp\<close> reads it: a \<open>data\<close>
  string and a \<open>difficulty\<close> number, either of which may be missing.
\<close>

record PuzzleData =
  pz_data :: "string option"
  pz_difficulty :: "int option"

text \<open>
  \<open>solvePuzzleHttp\<close>. Its \<open>catch\<close> block turns whatever is thrown into
  \<open>null\<close>.
\<close>

definition solvePuzzleHttp ::
  "nat \<Rightarrow> PuzzleData option \<Rightarrow> int \<Rightarrow> int \<Rightarrow> string option" where
  "solvePuzzleHttp maxStringLength puzzleData timestamp now =
     (case puzzleData of
        None \<Rightarrow> None
      | Some pd \<Rightarrow>
          (if truthy (pz_data pd)
           then (let difficulty = (case pz_difficulty pd of
                                     None \<Rightarrow> 1000
                                   | Some d \<Rightarrow> if d = 0 then 1000 else d);
                     prefix = take 16 (the (pz_data pd))
                 in case simulateProofOfWork maxStringLength (the (pz_data pd)) difficulty now of
                      Inl err \<Rightarrow> None
                    | Inr workValue \<Rightarrow>
                        Some (prefix @ ''.'' @ workValue @ ''.'' @ toString timestamp))
           else None))"

section \<open>Recognising and extracting a challenge\<close>

definition indicators :: "string list" where
  "indicators =
     [''friendly-captcha'', ''frc-captcha'', ''FriendlyCaptcha'', ''data-sitekey'',
      ''puzzle-endpoint'', ''captcha-widget'', ''data-fc-sitekey'', ''c-friendlycaptcha'',
      ''initCaptcha'', ''Friendly Captcha'']"

definition containsCaptcha :: "string \<Rightarrow> bool" where
  "containsCaptcha html =
     list_ex (\<lambda>indicator. includes_str (toLowerCase html) (toLowerCase indicator)) indicators"

text \<open>
  The regular expressions of the extractor are sequences of single-character
  classes, each taken once, \<open>*\<close> times or \<open>+\<close> times, with one capture group around
  one of them. All carry the flag \<open>i\<close>.
\<close>

datatype cclass =
    Lit char        \<comment> \<open>a literal character, compared without case\<close>
  | OneOf string    \<comment> \<open>\<open>[...]\<close>\<close>
  | NoneOf string   \<comment> \<open>\<open>[^...]\<close>\<close>
  | Digit           \<comment> \<open>\<open>\d\<close>\<close>
  | Space           \<comment> \<open>\<open>\s\<close>\<close>
  | AnyChar         \<comment> \<open>\<open>.\<close>\<close>

datatype quant = Once | Star | Plus

datatype item = Item cclass quant bool

text \<open>
  Case folding of the flag \<open>i\<close>. Every literal of the patterns is an ASCII character,
  and a character from 128 on never folds to one below 128, so folding the ASCII
  letters decides every comparison with a literal.
\<close>

definition canonicalize :: "char \<Rightarrow> char" where
  "canonicalize c =
     (let n = (of_char c :: int)
      in if 97 \<le> n \<and> n \<le> 122 then char_of (n - 32) else c)"

fun class_matches :: "cclass \<Rightarrow> char \<Rightarrow> bool" where
  "class_matches (Lit p) c = (canonicalize c = canonicalize p)"
| "class_matches (OneOf ps) c = (c \<in> set ps)"
| "class_matches (NoneOf ps) c = (c \<notin> set ps)"
| "class_matches Digit c = (48 \<le> (of_char c :: int) \<and> (of_char c :: int) \<le> 57)"
| "class_matches Space c = ((of_char c :: int) \<in> {9, 10, 11, 12, 13, 32, 160})"
| "class_matches AnyChar c = ((of_char c :: int) \<notin> {10, 13})"

text \<open>
  The numbers of characters a quantified class may take when \<open>n\<close> characters in a row
  match it, in the order the greedy backtracking matcher tries them.
\<close>

fun counts :: "quant \<Rightarrow> nat \<Rightarrow> nat list" where
  "counts Once n = (if 1 \<le> n then [1] else [])"
| "counts Star n = rev [0..<Suc n]"
| "counts Plus n = rev [1..<Suc n]"

text \<open>
  Every way the items match at the start of \<open>s\<close>, in the matcher's order of
  preference, each given by the text of the capture group.
\<close>

fun match_items :: "item list \<Rightarrow> string \<Rightarrow> string \<Rightarrow> string list" where
  "match_items [] s cap = [cap]"
| "match_items (Item cls q grouped # its) s cap =
     concat (map (\<lambda>k. match_items its (drop k s) (if grouped then take k s else cap))
                 (counts q (length (takeWhile (class_matches cls) s))))"

text \<open>
  \<open>html.match(pattern)\<close> for a pattern without the flag \<open>g\<close>: the leftmost position
  where the pattern matches, and there the preferred match; the result is \<open>match[1]\<close>.
\<close>

fun regex_match :: "item list \<Rightarrow> string \<Rightarrow> string option" where
  "regex_match pattern [] =
     (case match_items pattern [] [] of [] \<Rightarrow> None | m # ms \<Rightarrow> Some m)"
| "regex_match pattern (c # cs) =
     (case match_items pattern (c # cs) [] of
        [] \<Rightarrow> regex_match pattern cs
      | m # ms \<Rightarrow> Some m)"

text \<open>The test \<open>match && match[1]\<close> of both loops over patterns.\<close>

definition rule_value :: "item list \<Rightarrow> string \<Rightarrow> string option" where
  "rule_value pattern html =
     (case regex_match pattern html of
        None \<Rightarrow> None
      | Some m \<Rightarrow> if m \<noteq> [] then Some m else None)"

fun extractValue :: "string \<Rightarrow> item list list \<Rightarrow> string option" where
  "extractValue html [] = None"
| "extractValue html (pattern # patterns) =
     (case rule_value pattern html of
        Some m \<Rightarrow> Some m
      | None \<Rightarrow> extractValue html patterns)"

definition lit :: "string \<Rightarrow> item list" where
  "lit s = map (\<lambda>c. Item (Lit c) Once False) s"

definition quote :: "item" where
  "quote = Item (OneOf [CHR 0x22, CHR 0x27]) Once False"

definition quoted_group :: "item list" where
  "quoted_group = [quote, Item (NoneOf [CHR 0x22, CHR 0x27]) Plus True, quote]"

definition spaces :: "item" where
  "spaces = Item Space Star False"

definition sitekey_patterns :: "item list list" where
  "sitekey_patterns =
     [lit ''data-sitekey='' @ quoted_group,
      lit ''data-fc-sitekey='' @ quoted_group,
      lit ''sitekey:'' @ [spaces] @ quoted_group,
      lit ''fc-sitekey:'' @ [spaces] @ quoted_group,
      lit [CHR 0x22] @ lit ''sitekey'' @ lit [CHR 0x22] @ lit '':'' @ [spaces]
        @ lit [CHR 0x22] @ [Item (NoneOf [CHR 0x22]) Plus True] @ lit [CHR 0x22],
      lit [CHR 0x27] @ lit ''sitekey'' @ lit [CHR 0x27] @ lit '':'' @ [spaces]
        @ lit [CHR 0x27] @ [Item (NoneOf [CHR 0x27]) Plus True] @ lit [CHR 0x27],
      lit ''initCaptcha('' @ [Item (NoneOf '','') Plus False] @ lit '','' @ [spaces]
        @ quoted_group @ lit '')'',
      lit ''window.'' @ [Item AnyChar Star False] @ lit ''.initCaptcha(''
        @ [Item (NoneOf '','') Plus False] @ lit '','' @ [spaces]
        @ quoted_group @ lit '')'']"

definition puzzleEndpoint_patterns :: "item list list" where
  "puzzleEndpoint_patterns =
     [lit ''data-puzzle-endpoint='' @ quoted_group,
      lit ''puzzleEndpoint:'' @ [spaces] @ quoted_group]"

definition difficulty_patterns :: "item list list" where
  "difficulty_patterns =
     [lit ''data-difficulty='' @ [quote, Item Digit Plus True, quote],
      lit ''difficulty:'' @ [spaces] @ [Item Digit Plus True]]"

definition lang_patterns :: "item list list" where
  "lang_patterns =
     [lit ''data-lang='' @ quoted_group,
      lit ''lang:'' @ [spaces] @ quoted_group]"

definition startMode_patterns :: "item list list" where
  "startMode_patterns =
     [lit ''data-start='' @ quoted_group,
      lit ''start:'' @ [spaces] @ quoted_group]"

record CaptchaChallenge =
  sitekey :: string
  puzzleEndpoint :: "string option"
  difficulty :: "nat option"
  lang :: "string option"
  startMode :: "string option"

text \<open>
  \<open>parseInt\<close> on a string of decimal digits, which is what the two patterns for
  the difficulty capture. The model keeps the exact integer; the code rounds it to a
  double from \<open>2^53\<close> on.
\<close>

definition parseInt :: "string \<Rightarrow> nat" where
  "parseInt s = nat (foldl (\<lambda>n c. 10 * n + ((of_char c :: int) - 48)) 0 s)"

definition extractCaptchaChallenge :: "string \<Rightarrow> CaptchaChallenge option" where
  "extractCaptchaChallenge html =
     (case extractValue html sitekey_patterns of
        None \<Rightarrow> None
      | Some key \<Rightarrow>
          Some \<lparr> sitekey = key,
                 puzzleEndpoint = extractValue html puzzleEndpoint_patterns,
                 difficulty = map_option parseInt (extractValue html difficulty_patterns),
                 lang = extractValue html lang_patterns,
                 startMode = extractValue html startMode_patterns \<rparr>)"

section \<open>Results, promises and the race against the timeout\<close>

text \<open>
  The interfaces \<open>CaptchaSolution\<close> and \<open>CaptchaSolveResult\<close>. An optional field
  is an \<open>option\<close>. The fields \<open>solution\<close> and \<open>solveTime\<close> of the result carry
  the prefix \<open>r_\<close>, since the solution has fields of the same names, and the field
  \<open>method\<close> of the solution is \<open>solveMethod\<close>. \<open>formData\<close>
  is the list of the pairs appended to the \<open>URLSearchParams\<close>. Times are the
  milliseconds of \<open>Date.now()\<close>.
\<close>

datatype solve_method = M_puppeteer | M_native | M_fallback

record WidgetData =
  wd_sitekey :: string
  wd_timestamp :: int
  wd_difficulty :: nat
  wd_lang :: string

datatype debug_info =
    DebugHttp "PuzzleData option"    \<comment> \<open>\<open>{ method: 'http-fallback', puzzleData }\<close>\<close>
  | DebugApi WidgetData              \<comment> \<open>\<open>{ method: 'api-simulation', widgetData }\<close>\<close>
  | DebugPuppeteer "string option"   \<comment> \<open>the \<open>debugInfo\<close> of a browser sub-strategy\<close>

record CaptchaSolution =
  solution :: string
  timestamp :: string
  solveTime :: int
  solveMethod :: solve_method
  debugInfo :: "debug_info option"

record CaptchaSolveResult =
  success :: bool
  r_solution :: "CaptchaSolution option"
  error :: "string option"
  formData :: "(string \<times> string) list option"
  r_solveTime :: "int option"

text \<open>
  How a promise settles: fulfilled with a value, or rejected with an \<open>Error\<close> that
  has a message (\<open>Some\<close>) or with a value that is not an \<open>Error\<close> (\<open>None\<close>).
\<close>

datatype 'a settled = Fulfilled 'a | Rejected "string option"

text \<open>\<open>error instanceof Error ? error.message : fallback\<close>\<close>

definition error_message :: "string option \<Rightarrow> string \<Rightarrow> string" where
  "error_message e fallback = (case e of Some m \<Rightarrow> m | None \<Rightarrow> fallback)"

text \<open>
  What the environment decides about \<open>Promise.race([strategy(), createTimeout(ms)])\<close>:
  the strategy's promise settles first, in the given way, or the timer fires while the
  strategy is still pending.
\<close>

datatype 'a raced = Settled "'a settled" | TimerFirst

text \<open>The rejection of the promise of \<open>createTimeout\<close>.\<close>

definition createTimeout :: "nat \<Rightarrow> string option" where
  "createTimeout ms = Some (''Timeout after '' @ toString (int ms) @ ''ms'')"

definition race :: "'a raced \<Rightarrow> nat \<Rightarrow> 'a settled" where
  "race r ms = (case r of Settled x \<Rightarrow> x | TimerFirst \<Rightarrow> Rejected (createTimeout ms))"

section \<open>The cascade of \<open>solveCaptcha\<close>\<close>

text \<open>
  One entry of the strategy list, as it behaves when the loop calls it: the outcome of
  its race, and the value of \<open>Date.now()\<close> once the race has settled.
\<close>

record attempt =
  raced :: "CaptchaSolveResult raced"
  now_after :: int

text \<open>
  The loop over the strategies and the code after it. \<open>startTime\<close> is the clock at
  the entry of \<open>solveCaptcha\<close>, \<open>now_end\<close> the clock when every strategy has
  failed. The second component counts the strategies that were called.
\<close>

fun solveCaptcha_loop ::
  "nat \<Rightarrow> int \<Rightarrow> int \<Rightarrow> attempt list \<Rightarrow> string \<Rightarrow> nat \<Rightarrow> CaptchaSolveResult \<times> nat" where
  "solveCaptcha_loop ms startTime now_end [] lastError called =
     (\<lparr> success = False, r_solution = None,
         error = Some (''All strategies failed. Last error: '' @ lastError),
         formData = None, r_solveTime = Some (now_end - startTime) \<rparr>, called)"
| "solveCaptcha_loop ms startTime now_end (a # rest) lastError called =
     (case race (raced a) ms of
        Fulfilled result \<Rightarrow>
          if success result
          then (result\<lparr> r_solveTime := Some (now_after a - startTime) \<rparr>, Suc called)
          else solveCaptcha_loop ms startTime now_end rest lastError (Suc called)
      | Rejected e \<Rightarrow>
          solveCaptcha_loop ms startTime now_end rest
            (error_message e ''Unknown error'') (Suc called))"


section \<open>The three strategies\<close>

definition failure :: "string \<Rightarrow> int \<Rightarrow> CaptchaSolveResult" where
  "failure msg elapsed =
     \<lparr> success = False, r_solution = None, error = Some msg, formData = None,
       r_solveTime = Some elapsed \<rparr>"

definition captchaFormData :: "string \<Rightarrow> CaptchaChallenge \<Rightarrow> (string \<times> string) list" where
  "captchaFormData token challenge =
     [(''frc-captcha-solution'', token), (''frc-captcha-sitekey'', sitekey challenge)]"

subsection \<open>HTTP fallback\<close>

record response =
  resp_ok :: bool
  resp_status :: nat
  resp_json :: "PuzzleData option settled"

text \<open>
  The environment of one call of \<open>solveCaptchaWithHttp\<close>: what \<open>fetch\<close> does for
  a URL, and the clock where the method reads it.
\<close>

record http_env =
  http_start :: int       \<comment> \<open>\<open>startTime\<close>\<close>
  maxStringLength :: nat  \<comment> \<open>the longest string the engine builds\<close>
  fetch :: "string \<Rightarrow> response settled"
  http_now_puzzle :: int  \<comment> \<open>\<open>timestamp\<close> of \<open>solvePuzzleHttp\<close>\<close>
  http_now_pow :: int     \<comment> \<open>the clock after the nonce search\<close>
  http_iso :: string      \<comment> \<open>\<open>new Date().toISOString()\<close>\<close>
  http_now_solution :: int
  http_now_result :: int

definition puzzleUrl :: "CaptchaChallenge \<Rightarrow> string" where
  "puzzleUrl challenge =
     (if truthy (puzzleEndpoint challenge) then the (puzzleEndpoint challenge)
      else ''https://api.friendlycaptcha.com/api/v1/puzzle?sitekey='' @ sitekey challenge)"

definition solveCaptchaWithHttp :: "http_env \<Rightarrow> CaptchaChallenge \<Rightarrow> CaptchaSolveResult" where
  "solveCaptchaWithHttp e challenge =
     (let failed = (\<lambda>msg. failure msg (http_now_result e - http_start e))
      in case fetch e (puzzleUrl challenge) of
           Rejected err \<Rightarrow> failed (error_message err ''HTTP solve failed'')
         | Fulfilled puzzleResponse \<Rightarrow>
             if \<not> resp_ok puzzleResponse
             then failed (''Failed to fetch puzzle: '' @ toString (int (resp_status puzzleResponse)))
             else (case resp_json puzzleResponse of
                     Rejected err \<Rightarrow> failed (error_message err ''HTTP solve failed'')
                   | Fulfilled puzzleData \<Rightarrow>
                       (case solvePuzzleHttp (maxStringLength e) puzzleData (http_now_puzzle e)
                                   (http_now_pow e) of
                          None \<Rightarrow> failed ''HTTP solve failed''
                        | Some token \<Rightarrow>
                            if token = [] then failed ''HTTP solve failed''
                            else \<lparr> success = True,
                                   r_solution = Some \<lparr> solution = token, timestamp = http_iso e,
                                     solveTime = http_now_solution e - http_start e,
                                     solveMethod = M_fallback,
                                     debugInfo = Some (DebugHttp puzzleData) \<rparr>,
                                   error = None,
                                   formData = Some (captchaFormData token challenge),
                                   r_solveTime = Some (http_now_result e - http_start e) \<rparr>)))"

subsection \<open>API simulation\<close>

record api_env =
  api_start :: int
  api_now_widget :: int   \<comment> \<open>\<open>timestamp\<close> of \<open>widgetData\<close>\<close>
  api_now_mock :: int     \<comment> \<open>\<open>timestamp\<close> of \<open>generateMockSolution\<close>\<close>
  api_iso :: string
  api_now_solution :: int
  api_now_result :: int

text \<open>
  \<open>JSON.stringify\<close> on a string and on the object \<open>widgetData\<close>, for a
  difficulty below \<open>10^21\<close> (see \<open>toString\<close>).
\<close>

definition quoteJSON_char :: "char \<Rightarrow> string" where
  "quoteJSON_char c =
     (let n = (of_char c :: int)
      in if n = 34 then [CHR 0x5C, CHR 0x22]
         else if n = 92 then [CHR 0x5C, CHR 0x5C]
         else if n = 8 then [CHR 0x5C, CHR ''b'']
         else if n = 12 then [CHR 0x5C, CHR ''f'']
         else if n = 10 then [CHR 0x5C, CHR ''n'']
         else if n = 13 then [CHR 0x5C, CHR ''r'']
         else if n = 9 then [CHR 0x5C, CHR ''t'']
         else if n < 32 then [CHR 0x5C] @ ''u00'' @ [digit_char (nat (n div 16)), digit_char (nat (n mod 16))]
         else [c])"

definition quoteJSON :: "string \<Rightarrow> string" where
  "quoteJSON s = [CHR 0x22] @ concat (map quoteJSON_char s) @ [CHR 0x22]"

definition stringify :: "WidgetData \<Rightarrow> string" where
  "stringify wd =
     ''{'' @ quoteJSON ''sitekey'' @ '':'' @ quoteJSON (wd_sitekey wd)
     @ '','' @ quoteJSON ''timestamp'' @ '':'' @ toString (wd_timestamp wd)
     @ '','' @ quoteJSON ''difficulty'' @ '':'' @ toString (int (wd_difficulty wd))
     @ '','' @ quoteJSON ''lang'' @ '':'' @ quoteJSON (wd_lang wd) @ ''}''"

definition generateMockSolution :: "WidgetData \<Rightarrow> int \<Rightarrow> string" where
  "generateMockSolution widgetData now =
     take 16 (wd_sitekey widgetData) @ ''.'' @ simpleHash (stringify widgetData)
     @ ''.'' @ toString now"

definition solveCaptchaWithApiSimulation :: "api_env \<Rightarrow> CaptchaChallenge \<Rightarrow> CaptchaSolveResult" where
  "solveCaptchaWithApiSimulation e challenge =
     (let widgetData = \<lparr> wd_sitekey = sitekey challenge,
                          wd_timestamp = api_now_widget e,
                          wd_difficulty = (case difficulty challenge of
                                             None \<Rightarrow> 1
                                           | Some d \<Rightarrow> if d = 0 then 1 else d),
                          wd_lang = (if truthy (lang challenge) then the (lang challenge)
                                     else ''en'') \<rparr>;
          token = generateMockSolution widgetData (api_now_mock e)
      in if token = [] then failure ''API simulation failed'' (api_now_result e - api_start e)
         else \<lparr> success = True,
                r_solution = Some \<lparr> solution = token, timestamp = api_iso e,
                  solveTime = api_now_solution e - api_start e,
                  solveMethod = M_fallback,
                  debugInfo = Some (DebugApi widgetData) \<rparr>,
                error = None,
                formData = Some (captchaFormData token challenge),
                r_solveTime = Some (api_now_result e - api_start e) \<rparr>)"

subsection \<open>Browser automation\<close>

text \<open>
  What a browser sub-strategy resolves with (its type is \<open>any\<close>): the fields that
  \<open>solveCaptchaWithPuppeteer\<close> reads.
\<close>

record sub_result =
  sub_success :: bool
  sub_solution :: string
  sub_formData :: "(string \<times> string) list option"
  sub_debugInfo :: "string option"

text \<open>
  The environment of one call of \<open>solveCaptchaWithPuppeteer\<close>: whether
  \<open>initBrowser\<close>, \<open>newPage\<close> and \<open>configurePage\<close> get through, how the races of
  the three sub-strategies against \<open>SOLVE_TIMEOUT\<close> end, and the clock.
\<close>

record puppeteer_env =
  pup_start :: int
  browser_connected :: bool
  page_ready :: "unit settled"
  sub_direct :: "sub_result raced"    \<comment> \<open>\<open>solveCaptchaWithDirectWidget\<close>\<close>
  sub_iframe :: "sub_result raced"    \<comment> \<open>\<open>solveCaptchaWithIframe\<close>\<close>
  sub_manual :: "sub_result raced"    \<comment> \<open>\<open>solveCaptchaWithManualIntegration\<close>\<close>
  pup_now_solved :: "nat \<Rightarrow> int"   \<comment> \<open>the clock when sub-strategy \<open>i\<close> has succeeded\<close>
  pup_iso :: string
  pup_now_failed :: int

definition SOLVE_TIMEOUT :: nat where
  "SOLVE_TIMEOUT = 30000"

fun puppeteer_loop ::
  "puppeteer_env \<Rightarrow> sub_result raced list \<Rightarrow> nat \<Rightarrow> string \<Rightarrow> string + CaptchaSolveResult" where
  "puppeteer_loop e [] i lastError =
     Inl (''All Puppeteer strategies failed. Last error: '' @ lastError)"
| "puppeteer_loop e (r # rs) i lastError =
     (case race r SOLVE_TIMEOUT of
        Fulfilled result \<Rightarrow>
          if sub_success result
          then Inr \<lparr> success = True,
                     r_solution = Some \<lparr> solution = sub_solution result, timestamp = pup_iso e,
                       solveTime = pup_now_solved e i - pup_start e,
                       solveMethod = M_puppeteer,
                       debugInfo = Some (DebugPuppeteer (sub_debugInfo result)) \<rparr>,
                     error = None,
                     formData = sub_formData result,
                     r_solveTime = Some (pup_now_solved e i - pup_start e) \<rparr>
          else puppeteer_loop e rs (Suc i) lastError
      | Rejected err \<Rightarrow> puppeteer_loop e rs (Suc i) (error_message err ''Unknown error''))"

definition solveCaptchaWithPuppeteer ::
  "puppeteer_env \<Rightarrow> SolverConfig \<Rightarrow> CaptchaChallenge \<Rightarrow> CaptchaSolveResult" where
  "solveCaptchaWithPuppeteer e config challenge =
     (let failed = (\<lambda>msg. failure msg (pup_now_failed e - pup_start e))
      in if \<not> browser_connected e \<and> \<not> enablePuppeteer config
         then failed ''Puppeteer not available in current environment''
         else (case page_ready e of
                 Rejected err \<Rightarrow> failed (error_message err ''Unknown error'')
               | Fulfilled u \<Rightarrow>
                   (case puppeteer_loop e [sub_direct e, sub_iframe e, sub_manual e] 0 [] of
                      Inr result \<Rightarrow> result
                    | Inl msg \<Rightarrow> failed msg)))"

section \<open>\<open>solveCaptcha\<close>\<close>

text \<open>
  Everything outside the class that one call of \<open>solveCaptcha\<close> depends on.
\<close>

record world =
  w_host :: host
  now_start :: int                       \<comment> \<open>the clock at the entry\<close>
  timer_first :: "strategy_id \<Rightarrow> bool"   \<comment> \<open>the timeout fires while the strategy is pending\<close>
  now_settled :: "strategy_id \<Rightarrow> int"    \<comment> \<open>the clock after the race of the strategy\<close>
  now_failed :: int                      \<comment> \<open>the clock when every strategy has failed\<close>
  w_puppeteer :: puppeteer_env
  w_http :: http_env
  w_api :: api_env

text \<open>The three methods never reject: each catches what is thrown inside it.\<close>

definition run_strategy ::
  "world \<Rightarrow> SolverConfig \<Rightarrow> CaptchaChallenge \<Rightarrow> strategy_id \<Rightarrow> CaptchaSolveResult" where
  "run_strategy w config challenge sid =
     (case sid of
        Puppeteer \<Rightarrow> solveCaptchaWithPuppeteer (w_puppeteer w) config challenge
      | Http \<Rightarrow> solveCaptchaWithHttp (w_http w) challenge
      | ApiSimulation \<Rightarrow> solveCaptchaWithApiSimulation (w_api w) challenge)"

definition attempt_of :: "world \<Rightarrow> SolverConfig \<Rightarrow> CaptchaChallenge \<Rightarrow> strategy_id \<Rightarrow> attempt" where
  "attempt_of w config challenge sid =
     \<lparr> raced = (if timer_first w sid then TimerFirst
                else Settled (Fulfilled (run_strategy w config challenge sid))),
       now_after = now_settled w sid \<rparr>"

text \<open>
  \<open>solveCaptcha\<close> from the point where it has its configuration. The result comes
  with the strategies that were called, in the order of the calls.
\<close>

definition solveCaptcha_with ::
  "SolverConfig \<Rightarrow> world \<Rightarrow> CaptchaChallenge \<Rightarrow> CaptchaSolveResult \<times> strategy_id list" where
  "solveCaptcha_with config w challenge =
     (let (result, called) =
            solveCaptcha_loop (timeout config) (now_start w) (now_failed w)
              (map (attempt_of w config challenge) (strategies config)) [] 0
      in (result, take called (strategies config)))"

definition solveCaptcha ::
  "world \<Rightarrow> solver_state \<Rightarrow> CaptchaChallenge
     \<Rightarrow> (CaptchaSolveResult \<times> strategy_id list) \<times> solver_state" where
  "solveCaptcha w s challenge =
     (let (config, s1) = getConfig (w_host w) s;
          (env, s2) = detectEnvironment (w_host w) s1
      in (solveCaptcha_with config w challenge, s2))"

section \<open>Notions used in the statements\<close>

text \<open>The invariant of a result: exactly one of \<open>solution\<close> and \<open>error\<close> is set.\<close>

definition result_ok :: "CaptchaSolveResult \<Rightarrow> bool" where
  "result_ok r = ((r_solution r \<noteq> None) = success r \<and> (error r \<noteq> None) = (\<not> success r))"

text \<open>An attempt wins when its race is fulfilled with a result whose \<open>success\<close> is set.\<close>

definition wins :: "nat \<Rightarrow> attempt \<Rightarrow> bool" where
  "wins ms a = (case race (raced a) ms of Fulfilled result \<Rightarrow> success result | Rejected e \<Rightarrow> False)"

text \<open>
  \<open>v\<close> is the value of the first rule of the list that matches: no rule before it
  matches.
\<close>

definition first_match :: "string \<Rightarrow> item list list \<Rightarrow> string \<Rightarrow> bool" where
  "first_match html patterns v =
     (\<exists>before pattern after. patterns = before @ pattern # after
        \<and> (\<forall>q \<in> set before. rule_value q html = None)
        \<and> rule_value pattern html = Some v)"

text \<open>
  The markup contains the indicator when case is ignored: some stretch of the markup
  has the lower-case form of the indicator.
\<close>

definition contains_ignoring_case :: "string \<Rightarrow> string \<Rightarrow> bool" where
  "contains_ignoring_case html indicator =
     (\<exists>before w after. html = before @ w @ after \<and> toLowerCase w = toLowerCase indicator)"

section \<open>Example inputs\<close>

definition host_server :: host where
  "host_server =
     \<lparr> NODE_ENV = None, VERCEL = None, NETLIFY = None, AWS_LAMBDA_FUNCTION_NAME = None,
       FUNCTION_NAME = None, CF_PAGES = None, CHROME_PATH = None,
       PUPPETEER_EXECUTABLE_PATH = None, requirePuppeteer = False,
       existsSync = (\<lambda>path. False) \<rparr>"

definition host_vercel :: host where
  "host_vercel =
     \<lparr> NODE_ENV = Some ''production'', VERCEL = Some ''1'', NETLIFY = None,
       AWS_LAMBDA_FUNCTION_NAME = None, FUNCTION_NAME = None, CF_PAGES = None,
       CHROME_PATH = None, PUPPETEER_EXECUTABLE_PATH = None, requirePuppeteer = True,
       existsSync = (\<lambda>path. True) \<rparr>"

definition server_config :: SolverConfig where
  "server_config =
     \<lparr> timeout = 30000, maxRetries = 3, enablePuppeteer = False,
       enableHttpFallback = True, enableAntiDetection = False,
       resourceLimits = \<lparr> maxMemory = 1024, maxCpuUsage = 90 \<rparr> \<rparr>"

definition example_challenge :: CaptchaChallenge where
  "example_challenge =
     \<lparr> sitekey = ''ABC123'', puzzleEndpoint = None, difficulty = None,
       lang = Some ''en'', startMode = None \<rparr>"

text \<open>A world in which the puzzle endpoint answers with status 500.\<close>

definition example_world :: world where
  "example_world =
     \<lparr> w_host = host_server,
       now_start = 1000,
       timer_first = (\<lambda>sid. False),
       now_settled = (\<lambda>sid. case sid of Puppeteer \<Rightarrow> 1000 | Http \<Rightarrow> 1120
                                  | ApiSimulation \<Rightarrow> 3122),
       now_failed = 3122,
       w_puppeteer =
         \<lparr> pup_start = 1000, browser_connected = False, page_ready = Rejected None,
           sub_direct = TimerFirst, sub_iframe = TimerFirst, sub_manual = TimerFirst,
           pup_now_solved = (\<lambda>i. 1000), pup_iso = [], pup_now_failed = 1000 \<rparr>,
       w_http =
         \<lparr> http_start = 1000, maxStringLength = 536870888,
           fetch = (\<lambda>url. Fulfilled \<lparr> resp_ok = False, resp_status = 500,
                                       resp_json = Rejected None \<rparr>),
           http_now_puzzle = 1120, http_now_pow = 1120, http_iso = [],
           http_now_solution = 1120, http_now_result = 1120 \<rparr>,
       w_api =
         \<lparr> api_start = 1120, api_now_widget = 1120, api_now_mock = 3121,
           api_iso = ''2026-01-01T00:00:03.121Z'', api_now_solution = 3121,
           api_now_result = 3121 \<rparr> \<rparr>"



text \<open>Strategies that throw, time out and succeed.\<close>

definition alwaysThrows :: attempt where
  "alwaysThrows = \<lparr> raced = Settled (Rejected (Some ''boom'')), now_after = 1010 \<rparr>"

definition neverSettles :: attempt where
  "neverSettles = \<lparr> raced = TimerFirst, now_after = 1050 \<rparr>"

definition tok1_result :: CaptchaSolveResult where
  "tok1_result =
     \<lparr> success = True,
       r_solution = Some \<lparr> solution = ''tok1'', timestamp = ''2026-01-01T00:00:03.000Z'',
                            solveTime = 2000, solveMethod = M_fallback, debugInfo = None \<rparr>,
       error = None,
       formData = Some [(''frc-captcha-solution'', ''tok1''), (''frc-captcha-sitekey'', ''ABC123'')],
       r_solveTime = Some 2000 \<rparr>"

definition alwaysSucceeds :: attempt where
  "alwaysSucceeds = \<lparr> raced = Settled (Fulfilled tok1_result), now_after = 3010 \<rparr>"

declare toStringRadix.simps [simp del]
declare simulateProofOfWork_loop.simps [simp del]

section \<open>Properties of the environment profile and the configuration\<close>

lemma detectEnvironment_caches:
  "environmentInfo (snd (detectEnvironment h s)) = Some (fst (detectEnvironment h s))"
  by (simp add: detectEnvironment_def Let_def split: option.splits)

lemma detectEnvironment_cached:
  "environmentInfo s = Some e \<Longrightarrow> detectEnvironment h s = (e, s)"
  by (simp add: detectEnvironment_def)

lemma detectEnvironment_solverConfig:
  "solverConfig (snd (detectEnvironment h s)) = solverConfig s"
  by (simp add: detectEnvironment_def Let_def split: option.splits)

lemma getConfig_cached:
  "solverConfig s = Some c \<Longrightarrow> getConfig h s = (c, s)"
  by (simp add: getConfig_def)

lemma getConfig_fresh:
  "solverConfig s = None \<Longrightarrow> enableHttpFallback (fst (getConfig h s))
     \<and> solverConfig (snd (getConfig h s)) = Some (fst (getConfig h s))"
  by (simp add: getConfig_def Let_def split: prod.splits)

lemma reachable_http_enabled: "reachable s \<Longrightarrow> http_enabled s"
proof (induction rule: reachable.induct)
  case reach_init
  show ?case by (simp add: http_enabled_def initial_state_def)
next
  case (reach_detect s h)
  then show ?case by (simp add: http_enabled_def detectEnvironment_solverConfig)
next
  case (reach_config s h)
  show ?case
  proof (cases "solverConfig s")
    case None
    then show ?thesis using getConfig_fresh [of s h] by (simp add: http_enabled_def)
  next
    case (Some c)
    then show ?thesis using reach_config.IH by (simp add: getConfig_cached)
  qed
qed

text \<open>
  C9. Calling the environment profiler twice returns the same profile, whatever the
  process environment looks like at the second call: the second call returns the value
  cached by the first and leaves the cache as it is, and with a cached profile the
  result does not depend on the process environment at all.
\<close>

theorem detectEnvironment_memoized:
  "detectEnvironment h2 (snd (detectEnvironment h1 s)) = detectEnvironment h1 s
   \<and> (environmentInfo s \<noteq> None \<longrightarrow> detectEnvironment h1 s = detectEnvironment h2 s)"
proof -
  obtain e s1 where r: "detectEnvironment h1 s = (e, s1)" by (cases "detectEnvironment h1 s")
  have "environmentInfo s1 = Some e" using detectEnvironment_caches [of h1 s] r by simp
  then have "detectEnvironment h2 s1 = (e, s1)" by (rule detectEnvironment_cached)
  moreover have "environmentInfo s \<noteq> None \<longrightarrow> detectEnvironment h1 s = detectEnvironment h2 s"
    by (auto simp: detectEnvironment_cached)
  ultimately show ?thesis using r by simp
qed

text \<open>
  C10. In every state the class can reach, the configuration that \<open>getConfig\<close> returns
  has \<open>enableHttpFallback\<close> set, so the strategy list built from it holds the HTTP
  fallback and the API simulation, in this order at its end, and is not empty.
\<close>

theorem getConfig_http_fallback:
  assumes "reachable s"
  shows "enableHttpFallback (fst (getConfig h s))
         \<and> strategies (fst (getConfig h s)) \<noteq> []
         \<and> (\<exists>pre. strategies (fst (getConfig h s)) = pre @ [Http, ApiSimulation])"
proof -
  have en: "enableHttpFallback (fst (getConfig h s))"
  proof (cases "solverConfig s")
    case None
    then show ?thesis using getConfig_fresh [of s h] by simp
  next
    case (Some c)
    then show ?thesis using reachable_http_enabled [OF assms]
      by (simp add: getConfig_cached http_enabled_def)
  qed
  then show ?thesis by (simp add: strategies_def)
qed

theorem detectEnvironment_memoized_witness:
  "detectEnvironment host_server (snd (detectEnvironment host_vercel initial_state))
     = detectEnvironment host_vercel initial_state
   \<and> platform (fst (detectEnvironment host_server
                       (snd (detectEnvironment host_vercel initial_state)))) = ''vercel''
   \<and> platform (fst (detectEnvironment host_server initial_state)) = ''server''"
proof -
  have a: "platform (fst (detectEnvironment host_vercel initial_state)) = ''vercel''"
    by (simp add: detectEnvironment_def initial_state_def host_vercel_def truthy_def js_or_def Let_def)
  have b: "platform (fst (detectEnvironment host_server initial_state)) = ''server''"
    by (simp add: detectEnvironment_def initial_state_def host_server_def truthy_def js_or_def Let_def)
  from a b detectEnvironment_memoized [of host_server host_vercel initial_state]
  show ?thesis by simp
qed

theorem getConfig_http_fallback_witness:
  "reachable initial_state
   \<and> enableHttpFallback (fst (getConfig host_vercel initial_state))
   \<and> strategies (fst (getConfig host_vercel initial_state)) = [Http, ApiSimulation]"
proof -
  have r: "reachable initial_state" by (rule reach_init)
  have "\<not> enablePuppeteer (fst (getConfig host_vercel initial_state))"
    by (simp add: getConfig_def detectEnvironment_def initial_state_def host_vercel_def
                  truthy_def js_or_def Let_def)
  with r getConfig_http_fallback [OF r, of host_vercel] show ?thesis
    by (simp add: strategies_def)
qed

section \<open>Properties of the proof-of-work simulation\<close>

lemma startsWith_iff: "startsWith s p \<longleftrightarrow> (\<exists>r. s = p @ r)"
  by (induction s p rule: startsWith.induct) auto

lemma startsWith_replicate:
  "startsWith s (replicate k c) \<longleftrightarrow> take k s = replicate k c"
proof
  assume "startsWith s (replicate k c)"
  then obtain r where "s = replicate k c @ r" by (auto simp: startsWith_iff)
  then show "take k s = replicate k c" by simp
next
  assume t: "take k s = replicate k c"
  have "s = take k s @ drop k s" by simp
  with t have "s = replicate k c @ drop k s" by simp
  then show "startsWith s (replicate k c)" unfolding startsWith_iff by blast
qed

lemma pow_loop_find:
  "nonce = i \<Longrightarrow> fst (simulateProofOfWork_loop data target i nonce hashed) =
     map_option (\<lambda>n. simpleHash (data @ toString (int n)))
       (find (\<lambda>n. startsWith (simpleHash (data @ toString (int n))) target) [i..<10000])"
proof (induction data target i nonce hashed rule: simulateProofOfWork_loop.induct)
  case (1 data target i nonce hashed)
  show ?case
  proof (cases "i < 10000")
    case False
    then show ?thesis by (simp add: simulateProofOfWork_loop.simps)
  next
    case True
    then have upt: "[i..<10000] = i # [Suc i..<10000]" by (simp add: upt_conv_Cons)
    show ?thesis
    proof (cases "startsWith (simpleHash (data @ toString (int nonce))) target")
      case True
      with \<open>i < 10000\<close> 1(2) show ?thesis
        by (subst simulateProofOfWork_loop.simps) (simp add: upt)
    next
      case False
      with \<open>i < 10000\<close> 1(2) 1(1)[OF \<open>i < 10000\<close> refl False] show ?thesis
        by (subst simulateProofOfWork_loop.simps) (simp add: upt)
    qed
  qed
qed

lemma pow_loop_count:
  "snd (simulateProofOfWork_loop data target i nonce hashed) \<le> hashed + (10000 - i)"
proof (induction data target i nonce hashed rule: simulateProofOfWork_loop.induct)
  case (1 data target i nonce hashed)
  show ?case
  proof (cases "i < 10000")
    case False
    then show ?thesis by (simp add: simulateProofOfWork_loop.simps)
  next
    case True
    show ?thesis
    proof (cases "startsWith (simpleHash (data @ toString (int nonce))) target")
      case True
      with \<open>i < 10000\<close> show ?thesis
        by (subst simulateProofOfWork_loop.simps) simp
    next
      case False
      with \<open>i < 10000\<close> 1(1)[OF \<open>i < 10000\<close> refl False] show ?thesis
        by (subst simulateProofOfWork_loop.simps) simp
    qed
  qed
qed

text \<open>
  A hash is a hexadecimal number without leading zeros, so it never begins with two
  characters \<open>0\<close>: from a difficulty of 2000 on the search finds no nonce.
\<close>

lemma digit_char_nonzero: "0 < d \<Longrightarrow> d < 36 \<Longrightarrow> digit_char d \<noteq> CHR ''0''"
proof -
  assume d: "0 < d" "d < 36"
  have dist: "distinct ''0123456789abcdefghijklmnopqrstuvwxyz''" by simp
  have len: "length ''0123456789abcdefghijklmnopqrstuvwxyz'' = 36" by simp
  from d len have ne: "''0123456789abcdefghijklmnopqrstuvwxyz'' ! d \<noteq> CHR ''0''"
    using nth_eq_iff_index_eq [OF dist, of d 0] by simp
  show ?thesis unfolding digit_char_def by (rule ne)
qed

lemma toStringRadix_leading:
  "2 \<le> radix \<Longrightarrow> radix \<le> 36 \<Longrightarrow> 0 < n \<Longrightarrow>
     toStringRadix radix n \<noteq> [] \<and> hd (toStringRadix radix n) \<noteq> CHR ''0''"
proof (induction radix n rule: toStringRadix.induct)
  case (1 radix n)
  show ?case
  proof (cases "n < radix")
    case True
    with 1(2,3,4) have "digit_char n \<noteq> CHR ''0''" by (intro digit_char_nonzero) simp_all
    with True show ?thesis by (subst (1 2) toStringRadix.simps) simp
  next
    case False
    with 1(2) have pos: "0 < n div radix" by (simp add: div_greater_zero_iff)
    from False 1(2) have c: "\<not> (radix < 2 \<or> n < radix)" by simp
    from 1(1) [OF c 1(2) 1(3) pos]
    have ih: "toStringRadix radix (n div radix) \<noteq> []"
      "hd (toStringRadix radix (n div radix)) \<noteq> CHR ''0''" by simp_all
    from c have e: "toStringRadix radix n
        = toStringRadix radix (n div radix) @ [digit_char (n mod radix)]"
      by (subst toStringRadix.simps) simp
    from ih show ?thesis by (simp add: e)
  qed
qed

lemma simpleHash_zeros:
  assumes "2 \<le> k"
  shows "take k (simpleHash str) \<noteq> replicate k (CHR ''0'')"
proof (cases "simpleHash_loop 0 str = 0")
  case True
  then have "simpleHash str = ''0''"
    by (simp add: simpleHash_def toStringRadix.simps digit_char_def)
  then have "length (take k (simpleHash str)) \<le> 1" by simp
  moreover from assms have "length (replicate k (CHR ''0'')) \<ge> 2" by simp
  ultimately show ?thesis by (metis not_less_eq_eq numeral_2_eq_2 One_nat_def)
next
  case False
  then have "0 < nat \<bar>simpleHash_loop 0 str\<bar>" by simp
  then have l: "toStringRadix 16 (nat \<bar>simpleHash_loop 0 str\<bar>) \<noteq> []"
    "hd (toStringRadix 16 (nat \<bar>simpleHash_loop 0 str\<bar>)) \<noteq> CHR ''0''"
    using toStringRadix_leading [of 16 "nat \<bar>simpleHash_loop 0 str\<bar>"] by simp_all
  show ?thesis
  proof
    assume eq: "take k (simpleHash str) = replicate k (CHR ''0'')"
    from assms obtain k' where k: "k = Suc k'" by (cases k) simp_all
    from l(1) obtain c cs where cs: "simpleHash str = c # cs"
      by (cases "simpleHash str") (simp_all add: simpleHash_def)
    with eq k have "c = CHR ''0''" by simp
    with cs l(2) show False by (simp add: simpleHash_def)
  qed
qed

lemma no_nonce:
  "2 \<le> k \<Longrightarrow> find (\<lambda>nonce. take k (simpleHash (data @ toString (int nonce))) = replicate k (CHR ''0'')) ns = None"
  by (simp add: find_None_iff simpleHash_zeros)

lemma repeat_zero:
  "0 \<le> count \<Longrightarrow> count \<le> int maxlen \<Longrightarrow>
     repeat_str maxlen ''0'' count = Inr (replicate (nat count) (CHR ''0''))"
proof -
  have "concat (replicate n ''0'') = replicate n (CHR ''0'')" for n
    by (induction n) simp_all
  then show "0 \<le> count \<Longrightarrow> count \<le> int maxlen \<Longrightarrow>
     repeat_str maxlen ''0'' count = Inr (replicate (nat count) (CHR ''0''))"
    by (simp add: repeat_str_def)
qed

lemma repeat_zero_throws:
  "count < 0 \<or> int maxlen < count \<Longrightarrow> repeat_str maxlen ''0'' count = Inl RangeError"
  by (auto simp: repeat_str_def)

lemma simulateProofOfWork_in_range:
  assumes "0 \<le> dif" and "dif div 1000 \<le> int maxlen"
  shows "simulateProofOfWork maxlen data dif now =
       Inr (case find (\<lambda>nonce. take (nat (dif div 1000)) (simpleHash (data @ toString (int nonce)))
                              = replicate (nat (dif div 1000)) (CHR ''0''))
                  [0..<10000] of
          Some nonce \<Rightarrow> simpleHash (data @ toString (int nonce))
        | None \<Rightarrow> simpleHash (data @ toString now))"
proof -
  from assms(1) have "0 \<le> dif div 1000" by simp
  with assms(2) have "repeat_str maxlen ''0'' (dif div 1000)
      = Inr (replicate (nat (dif div 1000)) (CHR ''0''))" by (simp add: repeat_zero)
  then show ?thesis
    by (simp add: simulateProofOfWork_def pow_loop_find startsWith_replicate
             split: option.splits)
qed

lemma simulateProofOfWork_throws:
  assumes "dif < 0 \<or> int maxlen < dif div 1000"
  shows "simulateProofOfWork maxlen data dif now = Inl RangeError"
proof -
  from assms have "dif div 1000 < 0 \<or> int maxlen < dif div 1000" by auto
  then have "repeat_str maxlen ''0'' (dif div 1000) = Inl RangeError"
    by (rule repeat_zero_throws)
  then show ?thesis by (simp add: simulateProofOfWork_def)
qed

lemma simulateProofOfWork_fallback:
  assumes "2000 \<le> dif" and "dif div 1000 \<le> int maxlen"
  shows "simulateProofOfWork maxlen data dif now = Inr (simpleHash (data @ toString now))"
proof -
  from assms(1) have k: "2 \<le> nat (dif div 1000)" by simp
  from assms(1) have "0 \<le> dif" by simp
  then show ?thesis
    using simulateProofOfWork_in_range [OF _ assms(2), of data now] no_nonce [OF k, of data "[0..<10000]"]
    by simp
qed

text \<open>
  C8, as the code has it. When the target can be built (the difficulty is not negative
  and \<open>difficulty div 1000\<close> is within the longest string of the engine), the nonce
  search computes at most 10000 hashes; it returns the hash of the puzzle data followed
  by the first nonce below 10000 whose hash begins with \<open>difficulty div 1000\<close>
  characters \<open>0\<close>, and the hash of the puzzle data followed by the current time when
  there is no such nonce; the token is the first 16 characters of the puzzle data, the
  work value and the time stamp, joined by dots. Otherwise building the target throws
  a \<open>RangeError\<close>, and \<open>solvePuzzleHttp\<close> returns no token.
\<close>

theorem proof_of_work_token:
  "(0 \<le> dif \<and> dif div 1000 \<le> int maxlen \<longrightarrow>
      snd (simulateProofOfWork_loop data (replicate (nat (dif div 1000)) (CHR ''0'')) 0 0 0)
        \<le> 10000
    \<and> simulateProofOfWork maxlen data dif now =
        Inr (case find (\<lambda>nonce. take (nat (dif div 1000))
                                   (simpleHash (data @ toString (int nonce)))
                                 = replicate (nat (dif div 1000)) (CHR ''0''))
                       [0..<10000] of
               Some nonce \<Rightarrow> simpleHash (data @ toString (int nonce))
             | None \<Rightarrow> simpleHash (data @ toString now))
    \<and> (data \<noteq> [] \<and> dif \<noteq> 0 \<longrightarrow>
         (\<exists>work. simulateProofOfWork maxlen data dif now = Inr work
            \<and> solvePuzzleHttp maxlen (Some \<lparr> pz_data = Some data, pz_difficulty = Some dif \<rparr>)
                                ts now
                = Some (take 16 data @ ''.'' @ work @ ''.'' @ toString ts))))
   \<and> (dif < 0 \<or> int maxlen < dif div 1000 \<longrightarrow>
        simulateProofOfWork maxlen data dif now = Inl RangeError
      \<and> solvePuzzleHttp maxlen (Some \<lparr> pz_data = Some data, pz_difficulty = Some dif \<rparr>)
                          ts now = None)"
proof (intro conjI impI)
  assume r: "0 \<le> dif \<and> dif div 1000 \<le> int maxlen"
  show "snd (simulateProofOfWork_loop data (replicate (nat (dif div 1000)) (CHR ''0'')) 0 0 0)
          \<le> 10000"
    using pow_loop_count [of data "replicate (nat (dif div 1000)) (CHR ''0'')" 0 0 0] by simp
  from r show w: "simulateProofOfWork maxlen data dif now =
        Inr (case find (\<lambda>nonce. take (nat (dif div 1000))
                                   (simpleHash (data @ toString (int nonce)))
                                 = replicate (nat (dif div 1000)) (CHR ''0''))
                       [0..<10000] of
               Some nonce \<Rightarrow> simpleHash (data @ toString (int nonce))
             | None \<Rightarrow> simpleHash (data @ toString now))"
    by (simp add: simulateProofOfWork_in_range)
  assume d: "data \<noteq> [] \<and> dif \<noteq> 0"
  from w obtain work where k: "simulateProofOfWork maxlen data dif now = Inr work" by blast
  with d have "solvePuzzleHttp maxlen (Some \<lparr> pz_data = Some data, pz_difficulty = Some dif \<rparr>)
                                ts now
                = Some (take 16 data @ ''.'' @ work @ ''.'' @ toString ts)"
    by (simp add: solvePuzzleHttp_def truthy_def)
  with k show "\<exists>work. simulateProofOfWork maxlen data dif now = Inr work
            \<and> solvePuzzleHttp maxlen (Some \<lparr> pz_data = Some data, pz_difficulty = Some dif \<rparr>)
                                ts now
                = Some (take 16 data @ ''.'' @ work @ ''.'' @ toString ts)"
    by blast
next
  assume o: "dif < 0 \<or> int maxlen < dif div 1000"
  then show t: "simulateProofOfWork maxlen data dif now = Inl RangeError"
    by (rule simulateProofOfWork_throws)
  from o have "dif \<noteq> 0" by auto
  with t show "solvePuzzleHttp maxlen (Some \<lparr> pz_data = Some data, pz_difficulty = Some dif \<rparr>)
                          ts now = None"
    by (simp add: solvePuzzleHttp_def)
qed

text \<open>
  With a difficulty of 1000 the target is one \<open>0\<close>. For the puzzle data below the
  hashes with the nonces 0 to 6 are \<open>7\<close> down to \<open>1\<close>, and the hash with the nonce 7
  is \<open>0\<close>: the search returns it after eight hashes. With a difficulty of 2000 no
  nonce is found, and with a negative one the target cannot be built.
\<close>

theorem proof_of_work_token_witness:
  "snd (simulateProofOfWork_loop ''puzzle-data-0JF6KBFH'' ''0'' 0 0 0) = 8
   \<and> simpleHash ''puzzle-data-0JF6KBFH0'' = ''7''
   \<and> simpleHash ''puzzle-data-0JF6KBFH7'' = ''0''
   \<and> simulateProofOfWork 536870888 ''puzzle-data-0JF6KBFH'' 1000 1700000000001
       = Inr (simpleHash ''puzzle-data-0JF6KBFH7'')
   \<and> solvePuzzleHttp 536870888
        (Some \<lparr> pz_data = Some ''puzzle-data-0JF6KBFH'', pz_difficulty = Some 1000 \<rparr>)
        1700000000000 1700000000001
       = Some ''puzzle-data-0JF6.0.1700000000000''
   \<and> simulateProofOfWork 536870888 ''abc'' 2000 1700000000001
       = Inr (simpleHash ''abc1700000000001'')
   \<and> solvePuzzleHttp 536870888 (Some \<lparr> pz_data = Some ''abc'', pz_difficulty = Some 2000 \<rparr>)
        1700000000000 1700000000001
       = Some ''abc.3b35e0d7.1700000000000''
   \<and> solvePuzzleHttp 536870888 (Some \<lparr> pz_data = Some ''abc'', pz_difficulty = Some (- 1) \<rparr>)
        1700000000000 1700000000001 = None"
proof -
  have l: "simulateProofOfWork_loop ''puzzle-data-0JF6KBFH'' ''0'' 0 0 0 = (Some ''0'', 8)"
    by (simp add: simulateProofOfWork_loop.simps simpleHash_def toInt32_def toString_def
                  toStringRadix.simps digit_char_def)
  have y: "simpleHash ''puzzle-data-0JF6KBFH0'' = ''7''"
    by (simp add: simpleHash_def toInt32_def toStringRadix.simps digit_char_def)
  have z: "simpleHash ''puzzle-data-0JF6KBFH7'' = ''0''"
    by (simp add: simpleHash_def toInt32_def toStringRadix.simps digit_char_def)
  have t: "toString 1700000000000 = ''1700000000000''"
    "toString 1700000000001 = ''1700000000001''"
    by (simp_all add: toString_def toStringRadix.simps digit_char_def)
  have f: "simpleHash ''abc1700000000001'' = ''3b35e0d7''"
    by (simp add: simpleHash_def toInt32_def toStringRadix.simps digit_char_def)
  from l have l1: "simulateProofOfWork 536870888 ''puzzle-data-0JF6KBFH'' 1000 1700000000001
       = Inr ''0''"
    by (simp add: simulateProofOfWork_def repeat_str_def)
  have l2: "simulateProofOfWork 536870888 ''abc'' 2000 1700000000001
       = Inr (simpleHash ''abc1700000000001'')"
    using simulateProofOfWork_fallback [of 2000 536870888 "''abc''" 1700000000001] t by simp
  have p1: "0 \<le> (1000::int) \<and> (1000::int) div 1000 \<le> int 536870888" by simp
  have p2: "0 \<le> (2000::int) \<and> (2000::int) div 1000 \<le> int 536870888" by simp
  have p3: "(- 1::int) < 0 \<or> int 536870888 < (- 1::int) div 1000" by simp
  note inside = proof_of_work_token [THEN conjunct1, rule_format]
  note outside = proof_of_work_token [THEN conjunct2, rule_format]
  from inside [OF p1, of "''puzzle-data-0JF6KBFH''" 1700000000001 1700000000000]
  obtain work1 where "simulateProofOfWork 536870888 ''puzzle-data-0JF6KBFH'' 1000 1700000000001
        = Inr work1"
    and "solvePuzzleHttp 536870888
        (Some \<lparr> pz_data = Some ''puzzle-data-0JF6KBFH'', pz_difficulty = Some 1000 \<rparr>)
        1700000000000 1700000000001
       = Some (take 16 ''puzzle-data-0JF6KBFH'' @ ''.'' @ work1 @ ''.'' @ toString 1700000000000)"
    by auto
  with l1 t have first: "solvePuzzleHttp 536870888
        (Some \<lparr> pz_data = Some ''puzzle-data-0JF6KBFH'', pz_difficulty = Some 1000 \<rparr>)
        1700000000000 1700000000001
       = Some ''puzzle-data-0JF6.0.1700000000000''"
    by simp
  from inside [OF p2, of "''abc''" 1700000000001 1700000000000]
  obtain work2 where "simulateProofOfWork 536870888 ''abc'' 2000 1700000000001 = Inr work2"
    and "solvePuzzleHttp 536870888 (Some \<lparr> pz_data = Some ''abc'', pz_difficulty = Some 2000 \<rparr>)
        1700000000000 1700000000001
       = Some (take 16 ''abc'' @ ''.'' @ work2 @ ''.'' @ toString 1700000000000)"
    by auto
  with l2 f t have second: "solvePuzzleHttp 536870888
        (Some \<lparr> pz_data = Some ''abc'', pz_difficulty = Some 2000 \<rparr>)
        1700000000000 1700000000001
       = Some ''abc.3b35e0d7.1700000000000''"
    by simp
  from outside [OF p3, of "''abc''" 1700000000001 1700000000000]
  have third: "solvePuzzleHttp 536870888
        (Some \<lparr> pz_data = Some ''abc'', pz_difficulty = Some (- 1) \<rparr>)
        1700000000000 1700000000001 = None"
    by simp
  from l l1 l2 y z first second third show ?thesis by simp
qed

text \<open>
  The claim C8 as it is written promises the hash of the puzzle data and the current
  time whenever no nonce matches. With a difficulty of 600000000000, which asks for
  more characters \<open>0\<close> than V8 puts in a string, and with a negative difficulty, no
  nonce matches and there is neither this hash nor a token.
\<close>

theorem proof_of_work_counterexample:
  "simulateProofOfWork 536870888 ''abc'' 600000000000 1700000000001 = Inl RangeError
   \<and> simulateProofOfWork 536870888 ''abc'' 600000000000 1700000000001
       \<noteq> Inr (simpleHash ''abc1700000000001'')
   \<and> solvePuzzleHttp 536870888
        (Some \<lparr> pz_data = Some ''abc'', pz_difficulty = Some 600000000000 \<rparr>)
        1700000000000 1700000000001 = None
   \<and> solvePuzzleHttp 536870888 (Some \<lparr> pz_data = Some ''abc'', pz_difficulty = Some (- 5) \<rparr>)
        1700000000000 1700000000001 = None"
  by (simp add: solvePuzzleHttp_def simulateProofOfWork_def repeat_str_def truthy_def)

section \<open>Properties of the challenge extractor\<close>

lemma includes_str_iff: "includes_str s sub \<longleftrightarrow> (\<exists>before after. s = before @ sub @ after)"
proof (induction s)
  case Nil
  show ?case by auto
next
  case (Cons c cs)
  show ?case
  proof
    assume "includes_str (c # cs) sub"
    then consider "startsWith (c # cs) sub" | "includes_str cs sub" by auto
    then show "\<exists>before after. c # cs = before @ sub @ after"
    proof cases
      case 1
      then obtain r where "c # cs = sub @ r" by (auto simp: startsWith_iff)
      then have "c # cs = [] @ sub @ r" by simp
      then show ?thesis by blast
    next
      case 2
      then obtain b a where "cs = b @ sub @ a" using Cons.IH by auto
      then have "c # cs = (c # b) @ sub @ a" by simp
      then show ?thesis by blast
    qed
  next
    assume "\<exists>before after. c # cs = before @ sub @ after"
    then obtain b a where e: "c # cs = b @ sub @ a" by auto
    show "includes_str (c # cs) sub"
    proof (cases b)
      case Nil
      with e have "startsWith (c # cs) sub" unfolding startsWith_iff by auto
      then show ?thesis by simp
    next
      case (Cons x b')
      with e have "cs = b' @ sub @ a" by simp
      then have "includes_str cs sub" using Cons.IH by blast
      then show ?thesis by simp
    qed
  qed
qed

lemma includes_lower_iff:
  "includes_str (toLowerCase html) (toLowerCase indicator) \<longleftrightarrow> contains_ignoring_case html indicator"
proof
  assume "includes_str (toLowerCase html) (toLowerCase indicator)"
  then obtain b a where "map toLowerCase_char html = b @ map toLowerCase_char indicator @ a"
    by (auto simp: includes_str_iff toLowerCase_def)
  then obtain hb hr where h1: "html = hb @ hr"
    and h2: "map toLowerCase_char hr = map toLowerCase_char indicator @ a"
    by (metis map_eq_append_conv)
  from h2 obtain w ha where "hr = w @ ha" and "map toLowerCase_char w = map toLowerCase_char indicator"
    by (metis map_eq_append_conv)
  with h1 show "contains_ignoring_case html indicator"
    unfolding contains_ignoring_case_def toLowerCase_def by blast
next
  assume "contains_ignoring_case html indicator"
  then obtain b w a where "html = b @ w @ a" and "toLowerCase w = toLowerCase indicator"
    unfolding contains_ignoring_case_def by blast
  then have "toLowerCase html = toLowerCase b @ toLowerCase indicator @ toLowerCase a"
    by (simp add: toLowerCase_def)
  then show "includes_str (toLowerCase html) (toLowerCase indicator)"
    unfolding includes_str_iff by blast
qed

text \<open>
  C6. \<open>containsCaptcha\<close> holds exactly when the markup contains one of the indicators
  with case ignored. It is false on \<open>no captcha here\<close>, and the extractor finds no
  challenge there.
\<close>

theorem containsCaptcha_indicators:
  "(containsCaptcha html \<longleftrightarrow> (\<exists>indicator \<in> set indicators. contains_ignoring_case html indicator))
   \<and> \<not> containsCaptcha ''no captcha here''
   \<and> extractCaptchaChallenge ''no captcha here'' = None"
proof -
  have a: "containsCaptcha html \<longleftrightarrow> (\<exists>indicator \<in> set indicators. contains_ignoring_case html indicator)"
    by (simp add: containsCaptcha_def list_ex_iff includes_lower_iff)
  have b: "\<not> containsCaptcha ''no captcha here''" by code_simp
  have c: "extractCaptchaChallenge ''no captcha here'' = None" by code_simp
  from a b c show ?thesis by blast
qed

theorem containsCaptcha_indicators_witness:
  "containsCaptcha ''<div class=FRC-Captcha>''
   \<and> (\<exists>indicator \<in> set indicators. contains_ignoring_case ''<div class=FRC-Captcha>'' indicator)"
proof -
  have "containsCaptcha ''<div class=FRC-Captcha>''" by code_simp
  with containsCaptcha_indicators [of "''<div class=FRC-Captcha>''"] show ?thesis by blast
qed

lemma extractValue_None: "extractValue html ps = None \<longleftrightarrow> (\<forall>p \<in> set ps. rule_value p html = None)"
  by (induction ps) (auto split: option.splits)

lemma extractValue_Some: "extractValue html ps = Some v \<longleftrightarrow> first_match html ps v"
proof (induction ps)
  case Nil
  show ?case by (simp add: first_match_def)
next
  case (Cons p ps)
  show ?case
  proof (cases "rule_value p html")
    case None
    have "first_match html (p # ps) v \<longleftrightarrow> first_match html ps v"
    proof
      assume "first_match html (p # ps) v"
      then obtain b q a where e: "p # ps = b @ q # a" and nb: "\<forall>x \<in> set b. rule_value x html = None"
        and m: "rule_value q html = Some v" unfolding first_match_def by blast
      show "first_match html ps v"
      proof (cases b)
        case Nil
        with e m None show ?thesis by simp
      next
        case (Cons x b')
        with e have "ps = b' @ q # a" by simp
        moreover from Cons nb have "\<forall>x \<in> set b'. rule_value x html = None" by simp
        ultimately show ?thesis using m unfolding first_match_def by blast
      qed
    next
      assume "first_match html ps v"
      then obtain b q a where e: "ps = b @ q # a" and nb: "\<forall>x \<in> set b. rule_value x html = None"
        and m: "rule_value q html = Some v" unfolding first_match_def by blast
      from e have "p # ps = (p # b) @ q # a" by simp
      moreover from nb None have "\<forall>x \<in> set (p # b). rule_value x html = None" by simp
      ultimately show "first_match html (p # ps) v" using m unfolding first_match_def by blast
    qed
    with None Cons.IH show ?thesis by simp
  next
    case (Some m)
    have "first_match html (p # ps) v \<longleftrightarrow> v = m"
    proof
      assume "first_match html (p # ps) v"
      then obtain b q a where e: "p # ps = b @ q # a" and nb: "\<forall>x \<in> set b. rule_value x html = None"
        and mm: "rule_value q html = Some v" unfolding first_match_def by blast
      show "v = m"
      proof (cases b)
        case Nil
        with e mm Some show ?thesis by simp
      next
        case (Cons x b')
        with e nb Some show ?thesis by simp
      qed
    next
      assume "v = m"
      with Some have "p # ps = [] @ p # ps \<and> (\<forall>x \<in> set []. rule_value x html = None) \<and> rule_value p html = Some v"
        by simp
      then show "first_match html (p # ps) v" unfolding first_match_def by blast
    qed
    with Some show ?thesis by auto
  qed
qed

text \<open>
  C5. The extractor returns nothing exactly when no site-key rule matches. Otherwise
  the site key is the value of the first site-key rule that matches, and each of
  \<open>puzzleEndpoint\<close>, \<open>difficulty\<close>, \<open>lang\<close> and \<open>startMode\<close> is the value of the
  first matching rule of its own list, and is unset exactly when no rule of that list
  matches. On \<open><div data-sitekey="ABC123" data-lang="en">\<close> the site key is
  \<open>ABC123\<close>, the language \<open>en\<close>, and the other fields are unset.
\<close>

theorem extractCaptchaChallenge_rules:
  "(extractCaptchaChallenge html = None
      \<longleftrightarrow> (\<forall>p \<in> set sitekey_patterns. rule_value p html = None))
   \<and> (\<forall>c. extractCaptchaChallenge html = Some c \<longrightarrow>
          first_match html sitekey_patterns (sitekey c)
        \<and> (\<forall>v. puzzleEndpoint c = Some v \<longleftrightarrow> first_match html puzzleEndpoint_patterns v)
        \<and> (\<forall>n. difficulty c = Some n
                 \<longleftrightarrow> (\<exists>v. first_match html difficulty_patterns v \<and> n = parseInt v))
        \<and> (\<forall>v. lang c = Some v \<longleftrightarrow> first_match html lang_patterns v)
        \<and> (\<forall>v. startMode c = Some v \<longleftrightarrow> first_match html startMode_patterns v)
        \<and> (puzzleEndpoint c = None
             \<longleftrightarrow> (\<forall>p \<in> set puzzleEndpoint_patterns. rule_value p html = None))
        \<and> (difficulty c = None
             \<longleftrightarrow> (\<forall>p \<in> set difficulty_patterns. rule_value p html = None))
        \<and> (lang c = None \<longleftrightarrow> (\<forall>p \<in> set lang_patterns. rule_value p html = None))
        \<and> (startMode c = None
             \<longleftrightarrow> (\<forall>p \<in> set startMode_patterns. rule_value p html = None)))
   \<and> extractCaptchaChallenge ''<div data-sitekey=\"ABC123\" data-lang=\"en\">''
       = Some \<lparr> sitekey = ''ABC123'', puzzleEndpoint = None, difficulty = None,
                 lang = Some ''en'', startMode = None \<rparr>"
proof -
  have a: "extractCaptchaChallenge html = None
      \<longleftrightarrow> (\<forall>p \<in> set sitekey_patterns. rule_value p html = None)"
    by (simp add: extractCaptchaChallenge_def extractValue_None [symmetric] split: option.splits)
  have b: "\<forall>c. extractCaptchaChallenge html = Some c \<longrightarrow>
          first_match html sitekey_patterns (sitekey c)
        \<and> (\<forall>v. puzzleEndpoint c = Some v \<longleftrightarrow> first_match html puzzleEndpoint_patterns v)
        \<and> (\<forall>n. difficulty c = Some n
                 \<longleftrightarrow> (\<exists>v. first_match html difficulty_patterns v \<and> n = parseInt v))
        \<and> (\<forall>v. lang c = Some v \<longleftrightarrow> first_match html lang_patterns v)
        \<and> (\<forall>v. startMode c = Some v \<longleftrightarrow> first_match html startMode_patterns v)
        \<and> (puzzleEndpoint c = None
             \<longleftrightarrow> (\<forall>p \<in> set puzzleEndpoint_patterns. rule_value p html = None))
        \<and> (difficulty c = None
             \<longleftrightarrow> (\<forall>p \<in> set difficulty_patterns. rule_value p html = None))
        \<and> (lang c = None \<longleftrightarrow> (\<forall>p \<in> set lang_patterns. rule_value p html = None))
        \<and> (startMode c = None
             \<longleftrightarrow> (\<forall>p \<in> set startMode_patterns. rule_value p html = None))"
  proof (intro allI impI)
    fix c
    assume "extractCaptchaChallenge html = Some c"
    then obtain key where k: "extractValue html sitekey_patterns = Some key"
      and c: "c = \<lparr> sitekey = key,
                    puzzleEndpoint = extractValue html puzzleEndpoint_patterns,
                    difficulty = map_option parseInt (extractValue html difficulty_patterns),
                    lang = extractValue html lang_patterns,
                    startMode = extractValue html startMode_patterns \<rparr>"
      by (auto simp: extractCaptchaChallenge_def split: option.splits)
    have d: "\<forall>n. map_option parseInt (extractValue html difficulty_patterns) = Some n
                 \<longleftrightarrow> (\<exists>v. first_match html difficulty_patterns v \<and> n = parseInt v)"
      by (auto simp: extractValue_Some [symmetric])
    from k c d show "first_match html sitekey_patterns (sitekey c)
        \<and> (\<forall>v. puzzleEndpoint c = Some v \<longleftrightarrow> first_match html puzzleEndpoint_patterns v)
        \<and> (\<forall>n. difficulty c = Some n
                 \<longleftrightarrow> (\<exists>v. first_match html difficulty_patterns v \<and> n = parseInt v))
        \<and> (\<forall>v. lang c = Some v \<longleftrightarrow> first_match html lang_patterns v)
        \<and> (\<forall>v. startMode c = Some v \<longleftrightarrow> first_match html startMode_patterns v)
        \<and> (puzzleEndpoint c = None
             \<longleftrightarrow> (\<forall>p \<in> set puzzleEndpoint_patterns. rule_value p html = None))
        \<and> (difficulty c = None
             \<longleftrightarrow> (\<forall>p \<in> set difficulty_patterns. rule_value p html = None))
        \<and> (lang c = None \<longleftrightarrow> (\<forall>p \<in> set lang_patterns. rule_value p html = None))
        \<and> (startMode c = None
             \<longleftrightarrow> (\<forall>p \<in> set startMode_patterns. rule_value p html = None))"
      by (simp add: extractValue_Some extractValue_None)
  qed
  have e: "extractCaptchaChallenge ''<div data-sitekey=\"ABC123\" data-lang=\"en\">''
       = Some \<lparr> sitekey = ''ABC123'', puzzleEndpoint = None, difficulty = None,
                 lang = Some ''en'', startMode = None \<rparr>"
    by code_simp
  from a b e show ?thesis by blast
qed

text \<open>
  Both the first and the third site-key rule match the markup below; the first rule
  decides, although the text matched by the third stands further left.
\<close>

theorem extractCaptchaChallenge_rules_witness:
  "extractCaptchaChallenge ''sitekey: \"B\" data-sitekey=\"A\" difficulty: 42''
     = Some \<lparr> sitekey = ''A'', puzzleEndpoint = None, difficulty = Some 42,
               lang = None, startMode = None \<rparr>
   \<and> first_match ''sitekey: \"B\" data-sitekey=\"A\" difficulty: 42'' sitekey_patterns ''A''
   \<and> list_all (\<lambda>p. rule_value p ''sitekey: \"B\" data-sitekey=\"A\" difficulty: 42'' = None)
        lang_patterns
   \<and> rule_value (sitekey_patterns ! 2) ''sitekey: \"B\" data-sitekey=\"A\" difficulty: 42''
       = Some ''B''"
proof -
  have e: "extractCaptchaChallenge ''sitekey: \"B\" data-sitekey=\"A\" difficulty: 42''
     = Some \<lparr> sitekey = ''A'', puzzleEndpoint = None, difficulty = Some 42,
               lang = None, startMode = None \<rparr>"
    by code_simp
  have r: "rule_value (sitekey_patterns ! 2) ''sitekey: \"B\" data-sitekey=\"A\" difficulty: 42''
       = Some ''B''"
    by code_simp
  from e r extractCaptchaChallenge_rules [of "''sitekey: \"B\" data-sitekey=\"A\" difficulty: 42''"]
  show ?thesis by (simp add: list_all_iff)
qed

section \<open>Properties of the cascade\<close>

lemma loop_skip:
  "\<forall>a \<in> set pre. \<not> wins ms a \<Longrightarrow>
     \<exists>le'. solveCaptcha_loop ms st ne (pre @ rest) le n
            = solveCaptcha_loop ms st ne rest le' (n + length pre)"
proof (induction pre arbitrary: le n)
  case Nil
  show ?case by (rule exI [of _ le]) simp
next
  case (Cons a pre)
  then have nw: "\<not> wins ms a" and rest: "\<forall>a \<in> set pre. \<not> wins ms a" by simp_all
  show ?case
  proof (cases "race (raced a) ms")
    case (Fulfilled result)
    with nw have "\<not> success result" by (simp add: wins_def)
    with Fulfilled have "solveCaptcha_loop ms st ne ((a # pre) @ rest) le n
        = solveCaptcha_loop ms st ne (pre @ rest) le (Suc n)" by simp
    with Cons.IH [OF rest, of le "Suc n"] show ?thesis by simp
  next
    case (Rejected e)
    then have "solveCaptcha_loop ms st ne ((a # pre) @ rest) le n
        = solveCaptcha_loop ms st ne (pre @ rest) (error_message e ''Unknown error'') (Suc n)" by simp
    with Cons.IH [OF rest, of "error_message e ''Unknown error''" "Suc n"] show ?thesis by simp
  qed
qed

lemma first_winner:
  assumes "\<exists>a \<in> set as. wins ms a"
  shows "\<exists>pre a rest. as = pre @ a # rest \<and> (\<forall>b \<in> set pre. \<not> wins ms b) \<and> wins ms a"
proof -
  from assms obtain pre a rest where "as = pre @ a # rest" and "wins ms a"
    and "\<forall>b \<in> set pre. \<not> wins ms b"
    by (metis split_list_first_prop)
  then show ?thesis by blast
qed

lemma wins_result:
  "wins ms a \<longleftrightarrow> (\<exists>result. race (raced a) ms = Fulfilled result \<and> success result)"
  by (cases "race (raced a) ms") (simp_all add: wins_def)

text \<open>
  C3. When some attempt succeeds, the loop returns at the first one that does: the
  strategies after it are not called, the result is the result of that attempt, with its
  solution and the method in it, and the \<open>solveTime\<close> of the result is the clock at
  the return minus the clock at the entry of \<open>solveCaptcha\<close>.
\<close>

theorem first_success_wins:
  assumes "\<forall>b \<in> set pre. \<not> wins ms b"
    and "race (raced a) ms = Fulfilled result"
    and "success result"
  shows "solveCaptcha_loop ms startTime now_end (pre @ a # rest) [] 0
           = (result\<lparr> r_solveTime := Some (now_after a - startTime) \<rparr>, Suc (length pre))
         \<and> success (fst (solveCaptcha_loop ms startTime now_end (pre @ a # rest) [] 0))
         \<and> r_solution (fst (solveCaptcha_loop ms startTime now_end (pre @ a # rest) [] 0))
             = r_solution result"
proof -
  obtain le' where "solveCaptcha_loop ms startTime now_end (pre @ a # rest) [] 0
      = solveCaptcha_loop ms startTime now_end (a # rest) le' (0 + length pre)"
    using loop_skip [OF assms(1)] by blast
  with assms(2,3) show ?thesis by simp
qed

theorem first_success_wins_witness:
  "\<not> wins 30000 alwaysThrows
   \<and> race (raced alwaysSucceeds) 30000 = Fulfilled tok1_result
   \<and> success tok1_result
   \<and> solveCaptcha_loop 30000 1000 9999 [alwaysThrows, alwaysSucceeds, neverSettles] [] 0
       = (tok1_result\<lparr> r_solveTime := Some 2010 \<rparr>, 2)
   \<and> map_option solution
        (r_solution (fst (solveCaptcha_loop 30000 1000 9999
                            [alwaysThrows, alwaysSucceeds, neverSettles] [] 0))) = Some ''tok1''
   \<and> map_option solveTime (r_solution tok1_result) = Some 2000"
proof -
  have h1: "\<forall>b \<in> set [alwaysThrows]. \<not> wins 30000 b"
    by (simp add: wins_def race_def alwaysThrows_def)
  have h2: "race (raced alwaysSucceeds) 30000 = Fulfilled tok1_result"
    by (simp add: race_def alwaysSucceeds_def)
  have h3: "success tok1_result" by (simp add: tok1_result_def)
  have n: "now_after alwaysSucceeds = 3010" by (simp add: alwaysSucceeds_def)
  have s: "map_option solution (r_solution tok1_result) = Some ''tok1''
           \<and> map_option solveTime (r_solution tok1_result) = Some 2000"
    by (simp add: tok1_result_def)
  from first_success_wins [OF h1 h2 h3, of 1000 9999 "[neverSettles]"] h1 h2 h3 n s
  show ?thesis by simp
qed

text \<open>
  C4, as the code has it. When the timer fires while the strategy is still pending,
  the race is rejected with the text \<open>Timeout after <ms>ms\<close>, the loop records this
  text as \<open>lastError\<close> and goes on with the next strategy. The text begins with a
  capital \<open>T\<close>.
\<close>

theorem timeout_recorded:
  assumes "raced a = TimerFirst"
  shows "race (raced a) ms = Rejected (Some (''Timeout after '' @ toString (int ms) @ ''ms''))
         \<and> solveCaptcha_loop ms startTime now_end (a # rest) lastError called
             = solveCaptcha_loop ms startTime now_end rest
                 (''Timeout after '' @ toString (int ms) @ ''ms'') (Suc called)"
  using assms by (simp add: race_def createTimeout_def error_message_def)

theorem timeout_recorded_witness:
  "raced neverSettles = TimerFirst
   \<and> solveCaptcha_loop 50 1000 9999 [neverSettles, alwaysSucceeds] [] 0
       = solveCaptcha_loop 50 1000 9999 [alwaysSucceeds] ''Timeout after 50ms'' 1
   \<and> fst (solveCaptcha_loop 50 1000 9999 [neverSettles] [] 0)
       = failure ''All strategies failed. Last error: Timeout after 50ms'' 8999"
proof -
  have h: "raced neverSettles = TimerFirst" by (simp add: neverSettles_def)
  have t: "toString 50 = ''50''"
    by (simp add: toString_def toStringRadix.simps digit_char_def)
  from timeout_recorded [OF h, of 50 1000 9999 "[alwaysSucceeds]" "[]" 0]
       timeout_recorded [OF h, of 50 1000 9999 "[]" "[]" 0] h t
  show ?thesis by (simp add: failure_def)
qed

text \<open>
  The claim C4 as it is written asks for the text \<open>timeout after <ms>ms\<close>, in lower
  case. With a budget of 50 milliseconds the recorded text is another one.
\<close>

theorem timeout_text_counterexample:
  "race (raced neverSettles) 50 = Rejected (Some ''Timeout after 50ms'')
   \<and> race (raced neverSettles) 50 \<noteq> Rejected (Some ''timeout after 50ms'')"
  by (simp add: race_def neverSettles_def createTimeout_def toString_def
                toStringRadix.simps digit_char_def)

text \<open>
  What the loop does retain: the message of an attempt that is rejected. When every
  attempt is rejected, the last message is in the error of the result.
\<close>

lemma rejected_retained:
  "race (raced a) ms = Rejected e \<Longrightarrow>
     solveCaptcha_loop ms startTime now_end (a # rest) lastError called
       = solveCaptcha_loop ms startTime now_end rest (error_message e ''Unknown error'') (Suc called)"
  by simp

lemma all_rejected:
  assumes "race (raced a) ms = Rejected e"
    and "\<forall>b \<in> set as. \<exists>x. race (raced b) ms = Rejected x"
  shows "solveCaptcha_loop ms startTime now_end (as @ [a]) lastError called
           = (failure (''All strategies failed. Last error: '' @ error_message e ''Unknown error'')
                (now_end - startTime), Suc (called + length as))"
  using assms(2)
proof (induction as arbitrary: lastError called)
  case Nil
  with assms(1) show ?case by (simp add: failure_def)
next
  case (Cons b as)
  then obtain x where "race (raced b) ms = Rejected x" by auto
  with Cons show ?case by simp
qed

lemma resolved_failure_dropped:
  "race (raced a) ms = Fulfilled result \<Longrightarrow> \<not> success result \<Longrightarrow>
     solveCaptcha_loop ms startTime now_end (a # rest) lastError called
       = solveCaptcha_loop ms startTime now_end rest lastError (Suc called)"
  by simp

section \<open>The invariant of the result\<close>

lemma loop_result_ok:
  "\<forall>a \<in> set as. \<forall>r. race (raced a) ms = Fulfilled r \<longrightarrow> result_ok r \<Longrightarrow>
     result_ok (fst (solveCaptcha_loop ms st ne as le n))"
proof (induction as arbitrary: le n)
  case Nil
  show ?case by (simp add: result_ok_def)
next
  case (Cons a as)
  then have rest: "\<forall>a \<in> set as. \<forall>r. race (raced a) ms = Fulfilled r \<longrightarrow> result_ok r"
    and here: "\<forall>r. race (raced a) ms = Fulfilled r \<longrightarrow> result_ok r" by simp_all
  show ?case
  proof (cases "race (raced a) ms")
    case (Fulfilled result)
    with here have ok: "result_ok result" by simp
    show ?thesis
    proof (cases "success result")
      case True
      with Fulfilled ok show ?thesis by (simp add: result_ok_def)
    next
      case False
      with Fulfilled Cons.IH [OF rest] show ?thesis by simp
    qed
  next
    case (Rejected e)
    with Cons.IH [OF rest] show ?thesis by simp
  qed
qed

lemma failure_ok: "result_ok (failure msg t)"
  by (simp add: failure_def result_ok_def)

lemma http_ok: "result_ok (solveCaptchaWithHttp e challenge)"
  by (simp add: solveCaptchaWithHttp_def Let_def failure_ok split: settled.splits option.splits)
     (simp add: result_ok_def)

lemma api_ok: "result_ok (solveCaptchaWithApiSimulation e challenge)"
  by (simp add: solveCaptchaWithApiSimulation_def Let_def failure_ok) (simp add: result_ok_def)

lemma puppeteer_loop_ok: "puppeteer_loop e rs i le = Inr r \<Longrightarrow> result_ok r"
proof (induction rs arbitrary: i le)
  case Nil
  then show ?case by simp
next
  case (Cons x rs)
  then show ?case
    by (auto simp: result_ok_def split: settled.splits if_splits)
qed

lemma puppeteer_ok: "result_ok (solveCaptchaWithPuppeteer e config challenge)"
proof (cases "puppeteer_loop e [sub_direct e, sub_iframe e, sub_manual e] 0 []")
  case (Inl msg)
  then show ?thesis
    by (simp add: solveCaptchaWithPuppeteer_def Let_def failure_ok
             del: puppeteer_loop.simps split: settled.splits)
next
  case (Inr r)
  then have "result_ok r" by (rule puppeteer_loop_ok)
  with Inr show ?thesis
    by (simp add: solveCaptchaWithPuppeteer_def Let_def failure_ok
             del: puppeteer_loop.simps split: settled.splits)
qed

lemma run_strategy_ok: "result_ok (run_strategy w config challenge sid)"
  by (cases sid) (simp_all add: run_strategy_def http_ok api_ok puppeteer_ok)

lemma attempt_of_ok: "race (raced (attempt_of w config challenge sid)) ms = Fulfilled r \<Longrightarrow> result_ok r"
  by (auto simp: attempt_of_def race_def run_strategy_ok split: if_splits)

lemma solveCaptcha_with_ok: "result_ok (fst (solveCaptcha_with config w challenge))"
proof -
  have "result_ok (fst (solveCaptcha_loop (timeout config) (now_start w) (now_failed w)
          (map (attempt_of w config challenge) (strategies config)) [] 0))"
    by (rule loop_result_ok) (auto dest: attempt_of_ok)
  then show ?thesis by (simp add: solveCaptcha_with_def case_prod_beta)
qed

text \<open>
  C7. In every result of \<open>solveCaptcha\<close> the solution is present exactly when
  \<open>success\<close> is set, and the error exactly when it is not.
\<close>

theorem solveCaptcha_result_invariant:
  "result_ok (fst (solveCaptcha_with config w challenge))
   \<and> result_ok (fst (fst (solveCaptcha w s challenge)))"
proof -
  have any: "result_ok (fst (solveCaptcha_with c w challenge))" for c
    by (rule solveCaptcha_with_ok)
  obtain c s1 where g: "getConfig (w_host w) s = (c, s1)"
    by (cases "getConfig (w_host w) s")
  have "fst (solveCaptcha w s challenge) = solveCaptcha_with c w challenge"
    by (simp add: solveCaptcha_def g case_prod_beta)
  with any show ?thesis by simp
qed

theorem solveCaptcha_result_invariant_witness:
  "result_ok (fst (fst (solveCaptcha example_world initial_state example_challenge)))
   \<and> snd (fst (solveCaptcha example_world initial_state example_challenge))
       = [Http, ApiSimulation]
   \<and> success (fst (fst (solveCaptcha example_world initial_state example_challenge)))"
proof -
  have c: "getConfig host_server initial_state
             = (server_config, \<lparr> environmentInfo = Some \<lparr> isDevelopment = False,
                   isProduction = False, isServerless = False, platform = ''server'',
                   puppeteerAvailable = False, chromeAvailable = False \<rparr>,
                 solverConfig = Some server_config \<rparr>)"
    by (simp add: getConfig_def detectEnvironment_def initial_state_def host_server_def
                  truthy_def js_or_def server_config_def Let_def)
  have h: "run_strategy example_world server_config example_challenge Http
             = failure ''Failed to fetch puzzle: 500'' 120"
    by (simp add: run_strategy_def solveCaptchaWithHttp_def example_world_def
                  toString_def toStringRadix.simps digit_char_def)
  have a: "success (run_strategy example_world server_config example_challenge ApiSimulation)"
    by (simp add: run_strategy_def solveCaptchaWithApiSimulation_def generateMockSolution_def
                  example_world_def Let_def)
  have w: "w_host example_world = host_server" "timeout server_config = 30000"
    "strategies server_config = [Http, ApiSimulation]"
    "timer_first example_world = (\<lambda>sid. False)"
    by (simp_all add: example_world_def server_config_def strategies_def)
  have r: "snd (fst (solveCaptcha example_world initial_state example_challenge))
             = [Http, ApiSimulation]
           \<and> success (fst (fst (solveCaptcha example_world initial_state example_challenge)))"
    by (simp add: solveCaptcha_def w c solveCaptcha_with_def attempt_of_def race_def h a
                  failure_def detectEnvironment_def case_prod_beta)
  from r solveCaptcha_result_invariant [of server_config example_world example_challenge initial_state]
  show ?thesis by simp
qed

section \<open>The cascade over the strategies of the library\<close>
























end
